theory Spec2Isabelle
  imports Main "HOL-Library.Sublist"
begin

section \<open>The HTTP connection of the ArangoDB driver (http/connection.go)\<close>

text \<open>
  A shallow embedding of \<^verbatim>\<open>deps/github.com/arangodb/go-driver/http/connection.go\<close>.
  Go strings and byte slices are byte sequences, so both are \<open>string\<close> (a list of
  8-bit characters) and \<^verbatim>\<open>string(body)\<close> is the identity. A Go \<^verbatim>\<open>int\<close> is an \<open>int\<close>:
  the file does no arithmetic on one beyond the constant \<^verbatim>\<open>3 * 64\<close>.
\<close>

type_synonym bytes = string

subsection \<open>Library functions the file calls\<close>

text \<open>\<^verbatim>\<open>strings.Contains(s, substr)\<close>: some suffix of \<open>s\<close> starts with \<open>substr\<close>.\<close>

fun strings_Contains :: "string \<Rightarrow> string \<Rightarrow> bool" where
  "strings_Contains [] substr = (substr = [])"
| "strings_Contains (c # s) substr = (prefix substr (c # s) \<or> strings_Contains s substr)"

text \<open>
  \<^verbatim>\<open>strings.Split(s, sep)\<close> for a separator of one byte, the only use in the file
  (\<^verbatim>\<open>";"\<close>): the pieces between the separators, never an empty slice.
\<close>

fun strings_Split :: "string \<Rightarrow> char \<Rightarrow> string list" where
  "strings_Split [] sep = [[]]"
| "strings_Split (x # s) sep =
     (if x = sep then [] # strings_Split s sep
      else (case strings_Split s sep of
              [] \<Rightarrow> [[x]]
            | p # ps \<Rightarrow> (x # p) # ps))"

text \<open>The verb \<^verbatim>\<open>%d\<close> of \<^verbatim>\<open>fmt\<close>: an integer in decimal, with a sign when negative.\<close>

definition digit_char :: "nat \<Rightarrow> char" where
  "digit_char n = char_of (48 + n)"

function decimal :: "nat \<Rightarrow> string" where
  "decimal n = (if n < 10 then [digit_char n] else decimal (n div 10) @ [digit_char (n mod 10)])"
  by pat_completeness auto
termination
  by (relation "measure (\<lambda>n. n)") auto

definition fmt_d :: "int \<Rightarrow> string" where
  "fmt_d i = (if i < 0 then CHR ''-'' # decimal (nat (- i)) else decimal (nat i))"

text \<open>The apostrophe that the format strings of the file put around \<^verbatim>\<open>%s\<close>.\<close>

definition apostrophe :: string where
  "apostrophe = [CHR 0x27]"

subsection \<open>Errors\<close>

text \<open>
  Every error value the file builds or passes on. \<open>WithStack\<close> is the wrapper
  \<^verbatim>\<open>driver.WithStack\<close>; \<open>ArangoError\<close> carries \<^verbatim>\<open>HasError\<close>, \<^verbatim>\<open>Code\<close>, \<^verbatim>\<open>ErrorNum\<close> and
  \<^verbatim>\<open>ErrorMessage\<close>; \<open>Errorf\<close> is the result of \<^verbatim>\<open>fmt.Errorf\<close> with its rendered text;
  \<open>ExternalError\<close> is an error of a collaborator (transport, body reader, codec);
  \<open>RuntimePanic\<close> is a Go run-time panic, which is not a returned error.
\<close>

datatype error =
    InvalidArgumentError string
  | ArangoError bool int int string
  | Errorf string
  | ExternalError string
  | ConfigurationError string
  | WithStack error
  | RuntimePanic string

subsection \<open>Content types\<close>

text \<open>
  Modelled from the spec: the declaration of \<^verbatim>\<open>driver.ContentType\<close> is not part of the
  sources at hand. It is an integer type (the file prints it with \<^verbatim>\<open>%d\<close> and has a
  \<^verbatim>\<open>default\<close> branch for values that are neither constant); the spec lists the two
  formats as JSON and the compact binary format (velocypack), numbered here in that order.
\<close>

type_synonym ContentType = int

definition ContentTypeJSON :: ContentType where
  "ContentTypeJSON = 0"

definition ContentTypeVelocypack :: ContentType where
  "ContentTypeVelocypack = 1"

subsection \<open>The transport and the connection\<close>

datatype tls_Config = TLS nat

text \<open>
  The fields of \<^verbatim>\<open>http.Transport\<close> that the file sets or reads; durations in seconds.
\<close>

record http_Transport =
  ProxyFromEnvironment :: bool
  DialTimeout :: int
  DialKeepAlive :: int
  DialDualStack :: bool
  MaxIdleConns :: int
  MaxIdleConnsPerHost :: int
  IdleConnTimeout :: int
  TLSHandshakeTimeout :: int
  ExpectContinueTimeout :: int
  TLSClientConfig :: "tls_Config option"

text \<open>
  An \<^verbatim>\<open>http.RoundTripper\<close>: either a \<^verbatim>\<open>*http.Transport\<close>, which the file may adjust, or
  any other implementation. A nil interface is \<open>None\<close> where the type is used.
\<close>

datatype RoundTripper = HttpTransport http_Transport | CustomRoundTripper nat

text \<open>
  \<^verbatim>\<open>http.Client\<close>: \<open>CheckRedirect\<close> is \<open>None\<close> for the nil hook and \<open>Some e\<close> for a
  hook that returns the error \<open>e\<close> on every redirect.
\<close>

record http_Client =
  client_Transport :: "RoundTripper option"
  CheckRedirect :: "error option"

type_synonym URL = string

record httpConnection =
  endpoint :: URL
  contentType :: ContentType
  client :: http_Client

subsection \<open>Requests\<close>

text \<open>
  The two request variants, with the fields \<^verbatim>\<open>NewRequest\<close> sets (every other field
  of the structs starts at its zero value). \<open>OtherRequest\<close> is a \<^verbatim>\<open>driver.Request\<close>
  that is not an \<^verbatim>\<open>httpRequest\<close>.
\<close>

datatype request =
    httpJSONRequest string string
  | httpVPackRequest string string
  | OtherRequest

definition valid_methods :: "string list" where
  "valid_methods = [''GET'', ''POST'', ''DELETE'', ''HEAD'', ''PATCH'', ''PUT'', ''OPTIONS'']"

text \<open>
  \<^verbatim>\<open>NewRequest\<close> (lines 171-199). The receiver is a pointer, so the model returns the
  connection as it is after the call, next to the result.
\<close>

definition NewRequest :: "httpConnection \<Rightarrow> string \<Rightarrow> string \<Rightarrow> (error + request) \<times> httpConnection" where
  "NewRequest c method path =
     (if method \<in> set valid_methods then
        (let ct0 = contentType c;
             ct = (if ct0 \<noteq> ContentTypeJSON \<and> strings_Contains path ''_api/gharial''
                   then ContentTypeJSON else ct0)
         in if ct = ContentTypeJSON then (Inr (httpJSONRequest method path), c)
            else if ct = ContentTypeVelocypack then (Inr (httpVPackRequest method path), c)
            else (Inl (WithStack (Errorf (''Unsupported content type '' @ fmt_d (contentType c)))), c))
      else
        (Inl (WithStack (InvalidArgumentError
               (''Invalid method '' @ apostrophe @ method @ apostrophe))), c))"

subsection \<open>Contexts, responses and the caller's variables\<close>

text \<open>
  The caller may attach two slots to the context of a call: under \<^verbatim>\<open>keyRawResponse\<close> a
  \<^verbatim>\<open>*[]byte\<close> and under \<^verbatim>\<open>keyResponse\<close> a \<^verbatim>\<open>*driver.Response\<close>. A pointer handed in
  by the caller is the address of one of the caller's variables; the variables live in a
  store that \<^verbatim>\<open>Do\<close> takes and returns. A context is what \<^verbatim>\<open>ctx.Value\<close> answers for each
  key (\<open>None\<close> for the nil interface), and a nil context is \<open>None\<close>.
\<close>

type_synonym addr = nat

datatype ctx_value = BytesPtr addr | ResponsePtr addr | OtherValue nat

type_synonym Context = "string \<rightharpoonup> ctx_value"

definition keyRawResponse :: string where
  "keyRawResponse = ''arangodb-rawResponse''"

definition keyResponse :: string where
  "keyResponse = ''arangodb-response''"

text \<open>
  The \<^verbatim>\<open>*http.Response\<close> that the client returns: \<open>Body\<close> is what
  \<^verbatim>\<open>ioutil.ReadAll(resp.Body)\<close> gives, the bytes or an error.
\<close>

record http_Response =
  StatusCode :: int
  Header :: "string \<rightharpoonup> string list"
  Body :: "error + bytes"

datatype response =
    httpJSONResponse http_Response bytes
  | httpVPackResponse http_Response bytes

record store =
  bytes_at :: "addr \<Rightarrow> bytes"
  response_at :: "addr \<Rightarrow> response option"

text \<open>\<^verbatim>\<open>Header.Get\<close>: the first value stored under the key, or the empty string.\<close>

definition Header_Get :: "(string \<rightharpoonup> string list) \<Rightarrow> string \<Rightarrow> string" where
  "Header_Get h key = (case h key of None \<Rightarrow> [] | Some [] \<Rightarrow> [] | Some (v # _) \<Rightarrow> v)"

definition StatusUnauthorized :: int where
  "StatusUnauthorized = 401"

subsection \<open>Executing a request\<close>

text \<open>The type assertion \<^verbatim>\<open>req.(httpRequest)\<close> (line 203).\<close>

fun is_httpRequest :: "request \<Rightarrow> bool" where
  "is_httpRequest (httpJSONRequest method path) = True"
| "is_httpRequest (httpVPackRequest method path) = True"
| "is_httpRequest OtherRequest = False"

text \<open>Lines 225-232: the raw-response slot of the context, or nil.\<close>

definition lookup_rawResponse :: "Context option \<Rightarrow> addr option" where
  "lookup_rawResponse ctx =
     (case ctx of
        None \<Rightarrow> None
      | Some cx \<Rightarrow>
          (case cx keyRawResponse of
             None \<Rightarrow> None
           | Some (BytesPtr buf) \<Rightarrow> Some buf
           | Some (ResponsePtr p) \<Rightarrow> None
           | Some (OtherValue v) \<Rightarrow> None))"

text \<open>Lines 240-242 and 263-265: \<^verbatim>\<open>if rawResponse != nil { *rawResponse = body }\<close>.\<close>

definition store_rawResponse :: "addr option \<Rightarrow> bytes \<Rightarrow> store \<Rightarrow> store" where
  "store_rawResponse rawResponse body s =
     (case rawResponse of
        None \<Rightarrow> s
      | Some a \<Rightarrow> s\<lparr>bytes_at := (bytes_at s)(a := body)\<rparr>)"

text \<open>
  Lines 244-270: the switch on the media type. The result is the classified response or
  the error that \<^verbatim>\<open>Do\<close> returns at once, with the store as it is then.
\<close>

definition classify :: "http_Response \<Rightarrow> bytes \<Rightarrow> addr option \<Rightarrow> store \<Rightarrow> (error + response) \<times> store" where
  "classify resp body rawResponse s =
     (let ct = Header_Get (Header resp) ''Content-Type'' in
      case strings_Split ct (CHR '';'') of
        [] \<Rightarrow> (Inl (RuntimePanic ''index out of range''), s)
      | mt # rest \<Rightarrow>
          if mt = ''application/json'' \<or> mt = ''application/x-arango-dump'' then
            (Inr (httpJSONResponse resp body), s)
          else if mt = ''application/x-velocypack'' then
            (Inr (httpVPackResponse resp body), s)
          else if StatusCode resp = StatusUnauthorized then
            (Inl (WithStack (ArangoError True (StatusCode resp) 0 body)), s)
          else if length body = 0 then
            (let body' = ''{}'' in
             (Inr (httpJSONResponse resp body'), store_rawResponse rawResponse body' s))
          else
            (Inl (WithStack (Errorf
               (''Unsupported content type '' @ apostrophe @ ct @ apostrophe @
                '' with status '' @ fmt_d (StatusCode resp) @
                '' and content '' @ apostrophe @ body @ apostrophe))), s))"

text \<open>Lines 271-277: the response slot of the context receives the classified response.\<close>

definition capture_response :: "Context option \<Rightarrow> response \<Rightarrow> store \<Rightarrow> store" where
  "capture_response ctx httpResp s =
     (case ctx of
        None \<Rightarrow> s
      | Some cx \<Rightarrow>
          (case cx keyResponse of
             None \<Rightarrow> s
           | Some (ResponsePtr respPtr) \<Rightarrow> s\<lparr>response_at := (response_at s)(respPtr := Some httpResp)\<rparr>
           | Some (BytesPtr buf) \<Rightarrow> s
           | Some (OtherValue v) \<Rightarrow> s))"

text \<open>
  \<^verbatim>\<open>Do\<close> (lines 202-279). Two collaborators are parameters: \<open>createHTTPRequest\<close>, the
  method of the request that renders it against the endpoint and returns the Go pair of
  a wire request (nil is \<open>None\<close>) and an error (nil is \<open>None\<close>), and \<open>client_Do\<close>, the
  exchange of the client with the server. The code calls \<^verbatim>\<open>r.WithContext\<close> before it
  looks at the error of the rendering, which panics on a nil \<open>r\<close>. The trace hook and the
  context attached to the wire request carry no data of the exchange.
\<close>

definition Do ::
  "(request \<Rightarrow> URL \<Rightarrow> 'w option \<times> error option) \<Rightarrow> (http_Client \<Rightarrow> 'w \<Rightarrow> error + http_Response) \<Rightarrow>
   httpConnection \<Rightarrow> Context option \<Rightarrow> request \<Rightarrow> store \<Rightarrow> (error + response) \<times> store" where
  "Do createHTTPRequest client_Do c ctx req s =
     (if \<not> is_httpRequest req then
        (Inl (WithStack (InvalidArgumentError ''request is not a httpRequest'')), s)
      else
        (case createHTTPRequest req (endpoint c) of
           (None, err) \<Rightarrow> (Inl (RuntimePanic ''nil pointer dereference''), s)
         | (Some r, Some err) \<Rightarrow> (Inl (WithStack err), s)
         | (Some r, None) \<Rightarrow>
             (case client_Do (client c) r of
                Inl err \<Rightarrow> (Inl (WithStack err), s)
              | Inr resp \<Rightarrow>
                  (let rawResponse = lookup_rawResponse ctx in
                   case Body resp of
                     Inl err \<Rightarrow> (Inl (WithStack err), s)
                   | Inr body \<Rightarrow>
                       (case classify resp body rawResponse (store_rawResponse rawResponse body s) of
                          (Inl err, s') \<Rightarrow> (Inl err, s')
                        | (Inr httpResp, s') \<Rightarrow> (Inr httpResp, capture_response ctx httpResp s'))))))"

subsection \<open>Decoding\<close>

text \<open>
  \<^verbatim>\<open>Unmarshal\<close> (lines 282-305). The two codecs, \<^verbatim>\<open>json.Unmarshal\<close> and
  \<^verbatim>\<open>velocypack.Unmarshal\<close>, are libraries and parameters here: each takes the bytes and
  the target and returns its error (nil is \<open>None\<close>) and the target as it leaves it.
\<close>

definition Unmarshal ::
  "(bytes \<Rightarrow> 'r \<Rightarrow> error option \<times> 'r) \<Rightarrow> (bytes \<Rightarrow> 'r \<Rightarrow> error option \<times> 'r) \<Rightarrow>
   httpConnection \<Rightarrow> bytes \<Rightarrow> 'r \<Rightarrow> error option \<times> 'r" where
  "Unmarshal json_Unmarshal velocypack_Unmarshal c data result =
     (let ct0 = contentType c;
          ct = (if ct0 = ContentTypeVelocypack \<and> length data \<ge> 2 then
                  (let l = length data in
                   if (data ! 0 = CHR ''{'' \<and> data ! (l - 1) = CHR ''}'') \<or>
                      (data ! 0 = CHR ''['' \<and> data ! (l - 1) = CHR '']'')
                   then ContentTypeJSON else ct0)
                else ct0)
      in if ct = ContentTypeJSON then
           (case json_Unmarshal data result of
              (Some err, result') \<Rightarrow> (Some (WithStack err), result')
            | (None, result') \<Rightarrow> (None, result'))
         else if ct = ContentTypeVelocypack then
           (case velocypack_Unmarshal data result of
              (Some err, result') \<Rightarrow> (Some (WithStack err), result')
            | (None, result') \<Rightarrow> (None, result'))
         else
           (Some (WithStack (Errorf (''Unsupported content type '' @ fmt_d (contentType c)))), result))"

subsection \<open>Construction\<close>

text \<open>
  \<^verbatim>\<open>ConnectionConfig\<close> (lines 52-76) without the embedded cluster settings, which
  \<^verbatim>\<open>newHTTPConnection\<close> does not read.
\<close>

record ConnectionConfig =
  Endpoints :: "string list"
  TLSConfig :: "tls_Config option"
  Transport :: "RoundTripper option"
  FailOnRedirect :: bool
  ContentType :: ContentType

definition DefaultMaxIdleConnsPerHost :: int where
  "DefaultMaxIdleConnsPerHost = 64"

definition StatusFound :: int where
  "StatusFound = 302"

text \<open>Lines 104-116: the transport built when the configuration has none.\<close>

definition default_Transport :: http_Transport where
  "default_Transport =
     \<lparr>ProxyFromEnvironment = True, DialTimeout = 30, DialKeepAlive = 30, DialDualStack = True,
      MaxIdleConns = 100, MaxIdleConnsPerHost = 0, IdleConnTimeout = 90,
      TLSHandshakeTimeout = 10, ExpectContinueTimeout = 1, TLSClientConfig = None\<rparr>"

text \<open>Lines 119-136: the adjustments to a \<^verbatim>\<open>*http.Transport\<close>.\<close>

definition adjust_Transport :: "tls_Config option \<Rightarrow> http_Transport \<Rightarrow> http_Transport" where
  "adjust_Transport tlsConfig t =
     (let t1 = (if MaxIdleConnsPerHost t = 0
                then t\<lparr>MaxIdleConnsPerHost := DefaultMaxIdleConnsPerHost\<rparr> else t);
          defaultMaxIdleConns = 3 * DefaultMaxIdleConnsPerHost;
          t2 = (if MaxIdleConns t1 > 0 \<and> MaxIdleConns t1 < defaultMaxIdleConns
                then t1\<lparr>MaxIdleConns := defaultMaxIdleConns\<rparr> else t1)
      in case tlsConfig of
           None \<Rightarrow> t2
         | Some tc \<Rightarrow> t2\<lparr>TLSClientConfig := Some tc\<rparr>)"

text \<open>
  \<^verbatim>\<open>newHTTPConnection\<close> (lines 94-156). \<^verbatim>\<open>util.FixupEndpointURLScheme\<close> and
  \<^verbatim>\<open>url.Parse\<close> are parameters. A \<^verbatim>\<open>*http.Transport\<close> of the caller is adjusted in
  place and the client holds the same pointer, so the client's transport is the adjusted
  one.
\<close>

definition newHTTPConnection ::
  "(string \<Rightarrow> string) \<Rightarrow> (string \<Rightarrow> error + URL) \<Rightarrow> string \<Rightarrow> ConnectionConfig \<Rightarrow> error + httpConnection" where
  "newHTTPConnection FixupEndpointURLScheme url_Parse ep config =
     (case url_Parse (FixupEndpointURLScheme ep) of
        Inl err \<Rightarrow> Inl (WithStack err)
      | Inr u \<Rightarrow>
          (let transport =
                 (case Transport config of
                    None \<Rightarrow> HttpTransport (adjust_Transport (TLSConfig config) default_Transport)
                  | Some (HttpTransport t) \<Rightarrow> HttpTransport (adjust_Transport (TLSConfig config) t)
                  | Some (CustomRoundTripper n) \<Rightarrow> CustomRoundTripper n);
               httpClient =
                 \<lparr>client_Transport = Some transport,
                  CheckRedirect =
                    (if FailOnRedirect config
                     then Some (ArangoError True StatusFound 0 ''Redirect not allowed'')
                     else None)\<rparr>
           in Inr \<lparr>endpoint = u, contentType = ContentType config, client = httpClient\<rparr>))"

subsection \<open>Authentication\<close>

text \<open>
  Modelled from the spec: \<^verbatim>\<open>driver.Authentication\<close> with its methods \<^verbatim>\<open>Type\<close> and \<^verbatim>\<open>Get\<close>
  and the constants of \<^verbatim>\<open>driver.AuthenticationType\<close> are declared outside the sources at
  hand. The spec has a tagged value with the variants Basic, JWT and Raw, numbered here in
  that order, whose fields (\<^verbatim>\<open>username\<close>, \<^verbatim>\<open>password\<close>, \<^verbatim>\<open>value\<close>) may be present or
  absent; the type is an integer, which the file prints with \<^verbatim>\<open>%d\<close>.
\<close>

record Authentication =
  auth_Type :: int
  auth_Get :: "string \<rightharpoonup> string"

definition AuthenticationTypeBasic :: int where
  "AuthenticationTypeBasic = 0"

definition AuthenticationTypeJWT :: int where
  "AuthenticationTypeJWT = 1"

definition AuthenticationTypeRaw :: int where
  "AuthenticationTypeRaw = 2"

text \<open>
  Modelled from the spec: \<^verbatim>\<open>httpAuthentication\<close> and its constructors
  \<^verbatim>\<open>newBasicAuthentication\<close>, \<^verbatim>\<open>newJWTAuthentication\<close> and \<^verbatim>\<open>newRawAuthentication\<close> are
  defined outside the sources at hand. The spec requires the fields of the variant to be
  present; a constructor that misses one yields no authentication (nil, \<open>None\<close>).
\<close>

datatype httpAuthentication =
    basicAuthentication string string
  | jwtAuthentication string string
  | rawAuthentication string

definition newBasicAuthentication :: "string option \<Rightarrow> string option \<Rightarrow> httpAuthentication option" where
  "newBasicAuthentication userName password =
     (case (userName, password) of
        (Some u, Some p) \<Rightarrow> Some (basicAuthentication u p)
      | (Some u, None) \<Rightarrow> None
      | (None, p) \<Rightarrow> None)"

definition newJWTAuthentication :: "string option \<Rightarrow> string option \<Rightarrow> httpAuthentication option" where
  "newJWTAuthentication userName password =
     (case (userName, password) of
        (Some u, Some p) \<Rightarrow> Some (jwtAuthentication u p)
      | (Some u, None) \<Rightarrow> None
      | (None, p) \<Rightarrow> None)"

definition newRawAuthentication :: "string option \<Rightarrow> httpAuthentication option" where
  "newRawAuthentication val =
     (case val of Some v \<Rightarrow> Some (rawAuthentication v) | None \<Rightarrow> None)"

text \<open>
  Modelled from the spec: \<^verbatim>\<open>newAuthenticatedConnection\<close> is defined outside the sources
  at hand. The spec: the decorator is a new connection value that holds the wrapped
  connection and the credentials, decoration does not mutate the wrapped connection, and
  a missing required field is a configuration error.
\<close>

record authenticatedConnection =
  conn :: httpConnection
  auth :: httpAuthentication

definition newAuthenticatedConnection :: "httpConnection \<Rightarrow> httpAuthentication option \<Rightarrow> error + authenticatedConnection" where
  "newAuthenticatedConnection c a =
     (case a of
        None \<Rightarrow> Inl (ConfigurationError ''missing authentication field'')
      | Some httpAuth \<Rightarrow> Inr \<lparr>conn = c, auth = httpAuth\<rparr>)"

text \<open>
  \<^verbatim>\<open>SetAuthentication\<close> (lines 320-343), over the helpers above. The receiver is a
  pointer, so the model returns the connection as it is after the call, next to the result.
\<close>

definition SetAuthentication ::
  "httpConnection \<Rightarrow> Authentication \<Rightarrow> (error + authenticatedConnection) \<times> httpConnection" where
  "SetAuthentication c a =
     (let httpAuth =
            (if auth_Type a = AuthenticationTypeBasic then
               Inr (newBasicAuthentication (auth_Get a ''username'') (auth_Get a ''password''))
             else if auth_Type a = AuthenticationTypeJWT then
               Inr (newJWTAuthentication (auth_Get a ''username'') (auth_Get a ''password''))
             else if auth_Type a = AuthenticationTypeRaw then
               Inr (newRawAuthentication (auth_Get a ''value''))
             else
               Inl (WithStack (Errorf (''Unsupported authentication type '' @ fmt_d (auth_Type a)))))
      in case httpAuth of
           Inl err \<Rightarrow> (Inl err, c)
         | Inr ha \<Rightarrow>
             (case newAuthenticatedConnection c ha of
                Inl err \<Rightarrow> (Inl (WithStack err), c)
              | Inr result \<Rightarrow> (Inr result, c)))"

subsection \<open>Sample inputs\<close>

text \<open>
  Concrete collaborators and values at which the theorems below are instantiated: a
  rendering that succeeds with the endpoint as wire request, a server that answers every
  request with a given response, a response with one \<^verbatim>\<open>Content-Type\<close> header, a context
  with both slots attached, and a store whose variables are all empty.
\<close>

definition sample_render :: "request \<Rightarrow> URL \<Rightarrow> string option \<times> error option" where
  "sample_render req u = (Some u, None)"

definition sample_server :: "http_Response \<Rightarrow> http_Client \<Rightarrow> string \<Rightarrow> error + http_Response" where
  "sample_server resp cl r = Inr resp"

definition sample_response :: "int \<Rightarrow> string \<Rightarrow> bytes \<Rightarrow> http_Response" where
  "sample_response status ct body =
     \<lparr>StatusCode = status, Header = [''Content-Type'' \<mapsto> [ct]], Body = Inr body\<rparr>"

definition sample_connection :: "ContentType \<Rightarrow> httpConnection" where
  "sample_connection ct =
     \<lparr>endpoint = ''http://localhost:8529'', contentType = ct,
      client = \<lparr>client_Transport = None, CheckRedirect = None\<rparr>\<rparr>"

definition sample_context :: Context where
  "sample_context = [keyRawResponse \<mapsto> BytesPtr 1, keyResponse \<mapsto> ResponsePtr 2]"

definition sample_store :: store where
  "sample_store = \<lparr>bytes_at = (\<lambda>a. []), response_at = (\<lambda>a. None)\<rparr>"

text \<open>Sample codecs: a JSON codec that succeeds and a velocypack codec that fails.\<close>

definition sample_json_Unmarshal :: "bytes \<Rightarrow> string \<Rightarrow> error option \<times> string" where
  "sample_json_Unmarshal data result = (None, ''json '' @ data)"

definition sample_velocypack_Unmarshal :: "bytes \<Rightarrow> string \<Rightarrow> error option \<times> string" where
  "sample_velocypack_Unmarshal data result = (Some (ExternalError ''velocypack: invalid slice''), result)"

section \<open>Properties\<close>

subsection \<open>The library functions\<close>

lemma strings_Contains_sublist: "strings_Contains s substr \<longleftrightarrow> sublist substr s"
  by (induction s) (auto simp: sublist_Cons_right)

lemma strings_Split_first:
  "\<exists>ps. strings_Split s sep = takeWhile (\<lambda>x. x \<noteq> sep) s # ps"
  by (induction s) (auto split: list.splits)

lemma fmt_d_2: "fmt_d 2 = ''2''"
  by code_simp

lemma content_types_distinct: "ContentTypeJSON \<noteq> ContentTypeVelocypack"
  by (simp add: ContentTypeJSON_def ContentTypeVelocypack_def)

subsection \<open>Request creation\<close>

lemma valid_methods_mem:
  "method \<in> set valid_methods \<longleftrightarrow>
     method = ''GET'' \<or> method = ''POST'' \<or> method = ''DELETE'' \<or> method = ''HEAD'' \<or>
     method = ''PATCH'' \<or> method = ''PUT'' \<or> method = ''OPTIONS''"
  by (auto simp: valid_methods_def)

lemma gharial_example: "sublist ''_api/gharial'' ''/_db/_system/_api/gharial/social''"
  by (simp add: strings_Contains_sublist [symmetric])

lemma version_example: "\<not> sublist ''_api/gharial'' ''/_api/version''"
  by (simp add: strings_Contains_sublist [symmetric])

text \<open>
  C3. On a connection configured with the velocypack content type, a valid method and a
  path that contains \<^verbatim>\<open>_api/gharial\<close> give a JSON request: the configured format is
  overridden.
\<close>

theorem C3_gharial_request_is_JSON:
  "method \<in> set valid_methods \<Longrightarrow> sublist ''_api/gharial'' path \<Longrightarrow>
   contentType c = ContentTypeVelocypack \<Longrightarrow>
   fst (NewRequest c method path) = Inr (httpJSONRequest method path)"
  by (simp add: NewRequest_def Let_def strings_Contains_sublist content_types_distinct [symmetric])

theorem C3_gharial_request_is_JSON_witness:
  "''GET'' \<in> set valid_methods \<and> sublist ''_api/gharial'' ''/_db/_system/_api/gharial/social'' \<and>
   fst (NewRequest \<lparr>endpoint = ''http://localhost:8529'', contentType = ContentTypeVelocypack,
                     client = \<lparr>client_Transport = None, CheckRedirect = None\<rparr>\<rparr>
          ''GET'' ''/_db/_system/_api/gharial/social'')
     = Inr (httpJSONRequest ''GET'' ''/_db/_system/_api/gharial/social'')"
proof -
  have m: "''GET'' \<in> set valid_methods" by (simp add: valid_methods_mem)
  show ?thesis
    using m gharial_example C3_gharial_request_is_JSON [OF m gharial_example,
      of "\<lparr>endpoint = ''http://localhost:8529'', contentType = ContentTypeVelocypack,
           client = \<lparr>client_Transport = None, CheckRedirect = None\<rparr>\<rparr>"]
    by simp
qed

text \<open>
  C4, as the code has it. With a valid method, a configured content type that is neither
  JSON nor velocypack, and a path that does not contain \<^verbatim>\<open>_api/gharial\<close>,
  \<^verbatim>\<open>NewRequest\<close> itself returns the unsupported-content-type error, so no request exists
  that could be executed.
\<close>

theorem C4_unsupported_content_type:
  "method \<in> set valid_methods \<Longrightarrow> contentType c \<noteq> ContentTypeJSON \<Longrightarrow>
   contentType c \<noteq> ContentTypeVelocypack \<Longrightarrow> \<not> sublist ''_api/gharial'' path \<Longrightarrow>
   fst (NewRequest c method path)
     = Inl (WithStack (Errorf (''Unsupported content type '' @ fmt_d (contentType c))))"
  by (simp add: NewRequest_def Let_def strings_Contains_sublist)

theorem C4_unsupported_content_type_witness:
  "''GET'' \<in> set valid_methods \<and> (2::int) \<noteq> ContentTypeJSON \<and> 2 \<noteq> ContentTypeVelocypack \<and>
   \<not> sublist ''_api/gharial'' ''/_api/version'' \<and>
   fst (NewRequest \<lparr>endpoint = ''http://localhost:8529'', contentType = 2,
                     client = \<lparr>client_Transport = None, CheckRedirect = None\<rparr>\<rparr>
          ''GET'' ''/_api/version'')
     = Inl (WithStack (Errorf ''Unsupported content type 2''))"
proof -
  have m: "''GET'' \<in> set valid_methods" by (simp add: valid_methods_mem)
  have j: "(2::int) \<noteq> ContentTypeJSON" by (simp add: ContentTypeJSON_def)
  have v: "(2::int) \<noteq> ContentTypeVelocypack" by (simp add: ContentTypeVelocypack_def)
  show ?thesis
    using m j v version_example fmt_d_2
      C4_unsupported_content_type [of "''GET''"
        "\<lparr>endpoint = ''http://localhost:8529'', contentType = 2,
          client = \<lparr>client_Transport = None, CheckRedirect = None\<rparr>\<rparr>" "''/_api/version''"]
    by simp
qed

text \<open>
  C4 as stated fails: with the unsupported content type 2 and a path that contains
  \<^verbatim>\<open>_api/gharial\<close>, the override to JSON comes first and a JSON request is returned.
\<close>

theorem C4_counterexample:
  "''GET'' \<in> set valid_methods \<and> (2::int) \<noteq> ContentTypeJSON \<and> 2 \<noteq> ContentTypeVelocypack \<and>
   fst (NewRequest \<lparr>endpoint = ''http://localhost:8529'', contentType = 2,
                     client = \<lparr>client_Transport = None, CheckRedirect = None\<rparr>\<rparr>
          ''GET'' ''/_api/gharial'')
     = Inr (httpJSONRequest ''GET'' ''/_api/gharial'')"
  by (simp add: NewRequest_def Let_def valid_methods_def ContentTypeJSON_def
      ContentTypeVelocypack_def)

text \<open>
  C8, as the code has it. With a method of the allow-list and a configured content type
  that is JSON or velocypack, \<^verbatim>\<open>NewRequest\<close> returns a request of that method and path
  and no error; with any other method string it returns the invalid-argument error.
\<close>

theorem C8_method_allow_list:
  "(method \<in> set valid_methods \<and>
      (contentType c = ContentTypeJSON \<or> contentType c = ContentTypeVelocypack) \<longrightarrow>
      fst (NewRequest c method path) = Inr (httpJSONRequest method path) \<or>
      fst (NewRequest c method path) = Inr (httpVPackRequest method path)) \<and>
   (method \<notin> set valid_methods \<longrightarrow>
      fst (NewRequest c method path)
        = Inl (WithStack (InvalidArgumentError (''Invalid method '' @ apostrophe @ method @ apostrophe))))"
  by (auto simp: NewRequest_def Let_def)

theorem C8_method_allow_list_witness:
  "(''PATCH'' \<in> set valid_methods \<and>
    fst (NewRequest \<lparr>endpoint = ''http://localhost:8529'', contentType = ContentTypeVelocypack,
                      client = \<lparr>client_Transport = None, CheckRedirect = None\<rparr>\<rparr>
           ''PATCH'' ''/_api/version'') = Inr (httpVPackRequest ''PATCH'' ''/_api/version'')) \<and>
   (''TRACE'' \<notin> set valid_methods \<and>
    fst (NewRequest \<lparr>endpoint = ''http://localhost:8529'', contentType = ContentTypeVelocypack,
                      client = \<lparr>client_Transport = None, CheckRedirect = None\<rparr>\<rparr>
           ''TRACE'' ''/_api/version'')
      = Inl (WithStack (InvalidArgumentError (''Invalid method '' @ apostrophe @ ''TRACE'' @ apostrophe))))"
proof -
  let ?c = "\<lparr>endpoint = ''http://localhost:8529'', contentType = ContentTypeVelocypack,
             client = \<lparr>client_Transport = None, CheckRedirect = None\<rparr>\<rparr>"
  have m: "''PATCH'' \<in> set valid_methods" by (simp add: valid_methods_mem)
  have n: "''TRACE'' \<notin> set valid_methods" by (simp add: valid_methods_mem)
  have j: "fst (NewRequest ?c ''PATCH'' ''/_api/version'') \<noteq> Inr (httpJSONRequest ''PATCH'' ''/_api/version'')"
    by (simp add: NewRequest_def Let_def valid_methods_def ContentTypeJSON_def
        ContentTypeVelocypack_def)
  show ?thesis
    using m n j C8_method_allow_list [of "''PATCH''" ?c "''/_api/version''"]
      C8_method_allow_list [of "''TRACE''" ?c "''/_api/version''"]
    by simp
qed

text \<open>
  C8 as stated fails: \<^verbatim>\<open>GET\<close> is in the allow-list, yet on a connection configured with
  the unsupported content type 2 \<^verbatim>\<open>NewRequest\<close> returns an error.
\<close>

theorem C8_counterexample:
  "''GET'' \<in> set valid_methods \<and>
   fst (NewRequest \<lparr>endpoint = ''http://localhost:8529'', contentType = 2,
                     client = \<lparr>client_Transport = None, CheckRedirect = None\<rparr>\<rparr>
          ''GET'' ''/_api/version'')
     = Inl (WithStack (Errorf ''Unsupported content type 2''))"
  by (simp add: NewRequest_def Let_def valid_methods_def ContentTypeJSON_def
      ContentTypeVelocypack_def fmt_d_2)

text \<open>
  C10. \<^verbatim>\<open>NewRequest\<close> leaves the connection as it was (content type, endpoint and
  client), whatever the method and the path; a later call therefore behaves as on the
  original connection, and on a velocypack connection a later call with a path outside
  the graph API gives a velocypack request.
\<close>

theorem C10_NewRequest_keeps_connection:
  "snd (NewRequest c method path) = c \<and>
   contentType (snd (NewRequest c method path)) = contentType c \<and>
   endpoint (snd (NewRequest c method path)) = endpoint c \<and>
   client (snd (NewRequest c method path)) = client c \<and>
   NewRequest (snd (NewRequest c method path)) method' path' = NewRequest c method' path' \<and>
   (contentType c = ContentTypeVelocypack \<and> method' \<in> set valid_methods \<and>
    \<not> sublist ''_api/gharial'' path' \<longrightarrow>
      fst (NewRequest (snd (NewRequest c method path)) method' path')
        = Inr (httpVPackRequest method' path'))"
proof -
  have keep: "snd (NewRequest c method path) = c"
    by (simp add: NewRequest_def Let_def)
  have later: "fst (NewRequest c method' path') = Inr (httpVPackRequest method' path')"
    if "contentType c = ContentTypeVelocypack" "method' \<in> set valid_methods"
      "\<not> sublist ''_api/gharial'' path'"
    using that
    by (simp add: NewRequest_def Let_def strings_Contains_sublist content_types_distinct [symmetric])
  show ?thesis
    using later by (simp add: keep)
qed

theorem C10_NewRequest_keeps_connection_witness:
  "''GET'' \<in> set valid_methods \<and> \<not> sublist ''_api/gharial'' ''/_api/version'' \<and>
   fst (NewRequest
          (snd (NewRequest \<lparr>endpoint = ''http://localhost:8529'', contentType = ContentTypeVelocypack,
                            client = \<lparr>client_Transport = None, CheckRedirect = None\<rparr>\<rparr>
                  ''POST'' ''/_db/_system/_api/gharial/social''))
          ''GET'' ''/_api/version'')
     = Inr (httpVPackRequest ''GET'' ''/_api/version'')"
proof -
  let ?c = "\<lparr>endpoint = ''http://localhost:8529'', contentType = ContentTypeVelocypack,
             client = \<lparr>client_Transport = None, CheckRedirect = None\<rparr>\<rparr>"
  have m: "''GET'' \<in> set valid_methods" by (simp add: valid_methods_mem)
  have ct: "contentType ?c = ContentTypeVelocypack" by simp
  from C10_NewRequest_keeps_connection [of ?c "''POST''" "''/_db/_system/_api/gharial/social''"
      "''GET''" "''/_api/version''"] ct m version_example
  have "fst (NewRequest (snd (NewRequest ?c ''POST'' ''/_db/_system/_api/gharial/social''))
               ''GET'' ''/_api/version'') = Inr (httpVPackRequest ''GET'' ''/_api/version'')"
    by blast
  with m version_example show ?thesis by blast
qed

subsection \<open>Executing a request\<close>

lemma classify_takeWhile:
  "classify resp body rawResponse s =
     (let ct = Header_Get (Header resp) ''Content-Type'';
          mt = takeWhile (\<lambda>x. x \<noteq> CHR '';'') ct in
      if mt = ''application/json'' \<or> mt = ''application/x-arango-dump'' then
        (Inr (httpJSONResponse resp body), s)
      else if mt = ''application/x-velocypack'' then
        (Inr (httpVPackResponse resp body), s)
      else if StatusCode resp = 401 then
        (Inl (WithStack (ArangoError True 401 0 body)), s)
      else if body = [] then
        (Inr (httpJSONResponse resp ''{}''), store_rawResponse rawResponse ''{}'' s)
      else
        (Inl (WithStack (Errorf
           (''Unsupported content type '' @ apostrophe @ ct @ apostrophe @
            '' with status '' @ fmt_d (StatusCode resp) @
            '' and content '' @ apostrophe @ body @ apostrophe))), s))"
proof -
  obtain ps where split: "strings_Split (Header_Get (Header resp) ''Content-Type'') (CHR '';'')
      = takeWhile (\<lambda>x. x \<noteq> CHR '';'') (Header_Get (Header resp) ''Content-Type'') # ps"
    using strings_Split_first by blast
  show ?thesis
    unfolding classify_def Let_def split by (simp add: StatusUnauthorized_def)
qed

lemma Do_executed:
  assumes "is_httpRequest req"
    and "createHTTPRequest req (endpoint c) = (Some r, None)"
    and "client_Do (client c) r = Inr resp"
    and "Body resp = Inr body"
  shows "Do createHTTPRequest client_Do c ctx req s =
     (case classify resp body (lookup_rawResponse ctx)
             (store_rawResponse (lookup_rawResponse ctx) body s) of
        (Inl err, s') \<Rightarrow> (Inl err, s')
      | (Inr httpResp, s') \<Rightarrow> (Inr httpResp, capture_response ctx httpResp s'))"
  using assms by (simp add: Do_def Let_def)

lemma bytes_at_capture_response: "bytes_at (capture_response ctx httpResp s) = bytes_at s"
  by (simp add: capture_response_def split: option.splits ctx_value.splits)

lemma response_at_store_rawResponse: "response_at (store_rawResponse rawResponse body s) = response_at s"
  by (simp add: store_rawResponse_def split: option.splits)

lemma lookup_rawResponse_attached:
  "cx keyRawResponse = Some (BytesPtr a) \<Longrightarrow> lookup_rawResponse (Some cx) = Some a"
  by (simp add: lookup_rawResponse_def)

lemma fmt_d_500: "fmt_d 500 = ''500''"
  by code_simp

lemma sample_context_raw: "sample_context keyRawResponse = Some (BytesPtr 1)"
  by (simp add: sample_context_def keyRawResponse_def keyResponse_def)

lemma sample_exchange:
  "is_httpRequest (httpVPackRequest ''GET'' ''/_api/version'') \<and>
   sample_render (httpVPackRequest ''GET'' ''/_api/version'') (endpoint (sample_connection ct))
     = (Some ''http://localhost:8529'', None) \<and>
   sample_server resp (client (sample_connection ct)) ''http://localhost:8529'' = Inr resp \<and>
   Body (sample_response status t body) = Inr body \<and>
   StatusCode (sample_response status t body) = status \<and>
   Header_Get (Header (sample_response status t body)) ''Content-Type'' = t"
  by (simp add: sample_render_def sample_server_def sample_response_def sample_connection_def
      Header_Get_def)

text \<open>
  C1. For a request that was executed (rendered, exchanged, body read), \<^verbatim>\<open>Do\<close>
  classifies by the media type, the part of the \<^verbatim>\<open>Content-Type\<close> header before the first
  \<^verbatim>\<open>;\<close>: \<^verbatim>\<open>application/json\<close> and \<^verbatim>\<open>application/x-arango-dump\<close> give a JSON response,
  \<^verbatim>\<open>application/x-velocypack\<close> a velocypack response; any other media type gives, in this
  order, the authentication error with the body as message when the status is 401, a JSON
  response over the two bytes \<^verbatim>\<open>{}\<close> when the body is empty, and otherwise the
  unsupported-content-type error whose text holds the header, the status and the body.
\<close>

theorem C1_Do_classification:
  assumes "is_httpRequest req"
    and "createHTTPRequest req (endpoint c) = (Some r, None)"
    and "client_Do (client c) r = Inr resp"
    and "Body resp = Inr body"
    and "ct = Header_Get (Header resp) ''Content-Type''"
    and "mt = takeWhile (\<lambda>x. x \<noteq> CHR '';'') ct"
  shows
    "(mt = ''application/json'' \<or> mt = ''application/x-arango-dump'' \<longrightarrow>
        fst (Do createHTTPRequest client_Do c ctx req s) = Inr (httpJSONResponse resp body)) \<and>
     (mt = ''application/x-velocypack'' \<longrightarrow>
        fst (Do createHTTPRequest client_Do c ctx req s) = Inr (httpVPackResponse resp body)) \<and>
     (mt \<noteq> ''application/json'' \<and> mt \<noteq> ''application/x-arango-dump'' \<and>
      mt \<noteq> ''application/x-velocypack'' \<longrightarrow>
        (StatusCode resp = 401 \<longrightarrow>
           fst (Do createHTTPRequest client_Do c ctx req s)
             = Inl (WithStack (ArangoError True 401 0 body))) \<and>
        (StatusCode resp \<noteq> 401 \<and> body = [] \<longrightarrow>
           fst (Do createHTTPRequest client_Do c ctx req s) = Inr (httpJSONResponse resp ''{}'')) \<and>
        (StatusCode resp \<noteq> 401 \<and> body \<noteq> [] \<longrightarrow>
           fst (Do createHTTPRequest client_Do c ctx req s)
             = Inl (WithStack (Errorf
                 (''Unsupported content type '' @ apostrophe @ ct @ apostrophe @
                  '' with status '' @ fmt_d (StatusCode resp) @
                  '' and content '' @ apostrophe @ body @ apostrophe)))))"
proof -
  have ex: "Do createHTTPRequest client_Do c ctx req s =
     (case classify resp body (lookup_rawResponse ctx)
             (store_rawResponse (lookup_rawResponse ctx) body s) of
        (Inl err, s') \<Rightarrow> (Inl err, s')
      | (Inr httpResp, s') \<Rightarrow> (Inr httpResp, capture_response ctx httpResp s'))"
    using assms(1-4) by (rule Do_executed)
  show ?thesis
    unfolding ex classify_takeWhile Let_def using assms(5,6) by simp
qed

theorem C1_Do_classification_witness:
  "fst (Do sample_render (sample_server (sample_response 200 ''application/json; charset=utf-8'' ''[1,2]''))
          (sample_connection ContentTypeVelocypack) (Some sample_context)
          (httpVPackRequest ''GET'' ''/_api/version'') sample_store)
     = Inr (httpJSONResponse (sample_response 200 ''application/json; charset=utf-8'' ''[1,2]'') ''[1,2]'') \<and>
   fst (Do sample_render (sample_server (sample_response 200 ''application/x-velocypack'' ''[1,2]''))
          (sample_connection ContentTypeVelocypack) (Some sample_context)
          (httpVPackRequest ''GET'' ''/_api/version'') sample_store)
     = Inr (httpVPackResponse (sample_response 200 ''application/x-velocypack'' ''[1,2]'') ''[1,2]'') \<and>
   fst (Do sample_render (sample_server (sample_response 401 ''text/plain'' ''not authorized''))
          (sample_connection ContentTypeVelocypack) (Some sample_context)
          (httpVPackRequest ''GET'' ''/_api/version'') sample_store)
     = Inl (WithStack (ArangoError True 401 0 ''not authorized'')) \<and>
   fst (Do sample_render (sample_server (sample_response 200 ''text/plain'' []))
          (sample_connection ContentTypeVelocypack) (Some sample_context)
          (httpVPackRequest ''GET'' ''/_api/version'') sample_store)
     = Inr (httpJSONResponse (sample_response 200 ''text/plain'' []) ''{}'') \<and>
   fst (Do sample_render (sample_server (sample_response 500 ''text/plain'' ''failure''))
          (sample_connection ContentTypeVelocypack) (Some sample_context)
          (httpVPackRequest ''GET'' ''/_api/version'') sample_store)
     = Inl (WithStack (Errorf
         (''Unsupported content type '' @ apostrophe @ ''text/plain'' @ apostrophe @
          '' with status 500 and content '' @ apostrophe @ ''failure'' @ apostrophe)))"
proof -
  let ?req = "httpVPackRequest ''GET'' ''/_api/version''"
  let ?c = "sample_connection ContentTypeVelocypack"
  note ex = sample_exchange [of ContentTypeVelocypack]
  have a: "fst (Do sample_render (sample_server (sample_response 200 ''application/json; charset=utf-8'' ''[1,2]''))
          ?c (Some sample_context) ?req sample_store)
     = Inr (httpJSONResponse (sample_response 200 ''application/json; charset=utf-8'' ''[1,2]'') ''[1,2]'')"
    using C1_Do_classification [of ?req sample_render ?c "''http://localhost:8529''"
        "sample_server (sample_response 200 ''application/json; charset=utf-8'' ''[1,2]'')"
        "sample_response 200 ''application/json; charset=utf-8'' ''[1,2]''" "''[1,2]''"
        "''application/json; charset=utf-8''" "''application/json''" "Some sample_context" sample_store]
    by (simp add: ex)
  have b: "fst (Do sample_render (sample_server (sample_response 200 ''application/x-velocypack'' ''[1,2]''))
          ?c (Some sample_context) ?req sample_store)
     = Inr (httpVPackResponse (sample_response 200 ''application/x-velocypack'' ''[1,2]'') ''[1,2]'')"
    using C1_Do_classification [of ?req sample_render ?c "''http://localhost:8529''"
        "sample_server (sample_response 200 ''application/x-velocypack'' ''[1,2]'')"
        "sample_response 200 ''application/x-velocypack'' ''[1,2]''" "''[1,2]''"
        "''application/x-velocypack''" "''application/x-velocypack''" "Some sample_context" sample_store]
    by (simp add: ex)
  have c: "fst (Do sample_render (sample_server (sample_response 401 ''text/plain'' ''not authorized''))
          ?c (Some sample_context) ?req sample_store)
     = Inl (WithStack (ArangoError True 401 0 ''not authorized''))"
    using C1_Do_classification [of ?req sample_render ?c "''http://localhost:8529''"
        "sample_server (sample_response 401 ''text/plain'' ''not authorized'')"
        "sample_response 401 ''text/plain'' ''not authorized''" "''not authorized''"
        "''text/plain''" "''text/plain''" "Some sample_context" sample_store]
    by (simp add: ex)
  have d: "fst (Do sample_render (sample_server (sample_response 200 ''text/plain'' []))
          ?c (Some sample_context) ?req sample_store)
     = Inr (httpJSONResponse (sample_response 200 ''text/plain'' []) ''{}'')"
    using C1_Do_classification [of ?req sample_render ?c "''http://localhost:8529''"
        "sample_server (sample_response 200 ''text/plain'' [])"
        "sample_response 200 ''text/plain'' []" "[]"
        "''text/plain''" "''text/plain''" "Some sample_context" sample_store]
    by (simp add: ex)
  have e: "fst (Do sample_render (sample_server (sample_response 500 ''text/plain'' ''failure''))
          ?c (Some sample_context) ?req sample_store)
     = Inl (WithStack (Errorf
         (''Unsupported content type '' @ apostrophe @ ''text/plain'' @ apostrophe @
          '' with status 500 and content '' @ apostrophe @ ''failure'' @ apostrophe)))"
    using C1_Do_classification [of ?req sample_render ?c "''http://localhost:8529''"
        "sample_server (sample_response 500 ''text/plain'' ''failure'')"
        "sample_response 500 ''text/plain'' ''failure''" "''failure''"
        "''text/plain''" "''text/plain''" "Some sample_context" sample_store]
    by (simp add: ex fmt_d_500)
  from a b c d e show ?thesis by blast
qed

text \<open>
  C5. When the caller has attached a raw-response slot to the context and the request was
  executed, the slot holds after \<^verbatim>\<open>Do\<close> the body bytes that were read, except where an
  empty body under an unrecognised media type (status other than 401) is replaced by
  \<^verbatim>\<open>{}\<close>: there the slot holds the two bytes \<^verbatim>\<open>{}\<close>.
\<close>

theorem C5_raw_capture:
  assumes "is_httpRequest req"
    and "createHTTPRequest req (endpoint c) = (Some r, None)"
    and "client_Do (client c) r = Inr resp"
    and "Body resp = Inr body"
    and "cx keyRawResponse = Some (BytesPtr a)"
    and "mt = takeWhile (\<lambda>x. x \<noteq> CHR '';'') (Header_Get (Header resp) ''Content-Type'')"
  shows
    "(mt \<noteq> ''application/json'' \<and> mt \<noteq> ''application/x-arango-dump'' \<and>
      mt \<noteq> ''application/x-velocypack'' \<and> StatusCode resp \<noteq> 401 \<and> body = [] \<longrightarrow>
        bytes_at (snd (Do createHTTPRequest client_Do c (Some cx) req s)) a = ''{}'') \<and>
     (mt = ''application/json'' \<or> mt = ''application/x-arango-dump'' \<or>
      mt = ''application/x-velocypack'' \<or> StatusCode resp = 401 \<or> body \<noteq> [] \<longrightarrow>
        bytes_at (snd (Do createHTTPRequest client_Do c (Some cx) req s)) a = body)"
proof -
  have ex: "Do createHTTPRequest client_Do c (Some cx) req s =
     (case classify resp body (lookup_rawResponse (Some cx))
             (store_rawResponse (lookup_rawResponse (Some cx)) body s) of
        (Inl err, s') \<Rightarrow> (Inl err, s')
      | (Inr httpResp, s') \<Rightarrow> (Inr httpResp, capture_response (Some cx) httpResp s'))"
    using assms(1-4) by (rule Do_executed)
  have lk: "lookup_rawResponse (Some cx) = Some a"
    using assms(5) by (rule lookup_rawResponse_attached)
  show ?thesis
    unfolding ex classify_takeWhile Let_def lk
    using assms(6) by (simp add: bytes_at_capture_response store_rawResponse_def)
qed

theorem C5_raw_capture_witness:
  "bytes_at (snd (Do sample_render (sample_server (sample_response 200 ''text/plain'' []))
                    (sample_connection ContentTypeVelocypack) (Some sample_context)
                    (httpVPackRequest ''GET'' ''/_api/version'') sample_store)) 1 = ''{}'' \<and>
   bytes_at (snd (Do sample_render (sample_server (sample_response 200 ''application/json'' ''[1,2]''))
                    (sample_connection ContentTypeVelocypack) (Some sample_context)
                    (httpVPackRequest ''GET'' ''/_api/version'') sample_store)) 1 = ''[1,2]'' \<and>
   bytes_at sample_store 1 = []"
proof -
  let ?req = "httpVPackRequest ''GET'' ''/_api/version''"
  let ?c = "sample_connection ContentTypeVelocypack"
  note ex = sample_exchange [of ContentTypeVelocypack]
  have a: "bytes_at (snd (Do sample_render (sample_server (sample_response 200 ''text/plain'' []))
                    ?c (Some sample_context) ?req sample_store)) 1 = ''{}''"
    using C5_raw_capture [of ?req sample_render ?c "''http://localhost:8529''"
        "sample_server (sample_response 200 ''text/plain'' [])"
        "sample_response 200 ''text/plain'' []" "[]" sample_context 1 "''text/plain''" sample_store]
    by (simp add: ex sample_context_raw)
  have b: "bytes_at (snd (Do sample_render (sample_server (sample_response 200 ''application/json'' ''[1,2]''))
                    ?c (Some sample_context) ?req sample_store)) 1 = ''[1,2]''"
    using C5_raw_capture [of ?req sample_render ?c "''http://localhost:8529''"
        "sample_server (sample_response 200 ''application/json'' ''[1,2]'')"
        "sample_response 200 ''application/json'' ''[1,2]''" "''[1,2]''" sample_context 1
        "''application/json''" sample_store]
    by (simp add: ex sample_context_raw)
  have c: "bytes_at sample_store 1 = []"
    by (simp add: sample_store_def)
  from a b c show ?thesis by blast
qed

text \<open>
  C9. When an executed request fails in the classification (status 401 or a non-empty
  body, under an unrecognised media type), \<^verbatim>\<open>Do\<close> returns the error, every response
  slot of the caller is as it was before the call, and an attached raw-response slot holds
  the body bytes that were read.
\<close>

theorem C9_failed_classification:
  assumes "is_httpRequest req"
    and "createHTTPRequest req (endpoint c) = (Some r, None)"
    and "client_Do (client c) r = Inr resp"
    and "Body resp = Inr body"
    and "ct = Header_Get (Header resp) ''Content-Type''"
    and "mt = takeWhile (\<lambda>x. x \<noteq> CHR '';'') ct"
    and "mt \<noteq> ''application/json''" and "mt \<noteq> ''application/x-arango-dump''"
    and "mt \<noteq> ''application/x-velocypack''"
    and "StatusCode resp = 401 \<or> body \<noteq> []"
  shows
    "fst (Do createHTTPRequest client_Do c ctx req s)
       = Inl (if StatusCode resp = 401 then WithStack (ArangoError True 401 0 body)
              else WithStack (Errorf
                 (''Unsupported content type '' @ apostrophe @ ct @ apostrophe @
                  '' with status '' @ fmt_d (StatusCode resp) @
                  '' and content '' @ apostrophe @ body @ apostrophe))) \<and>
     response_at (snd (Do createHTTPRequest client_Do c ctx req s)) = response_at s \<and>
     (ctx = Some cx \<and> cx keyRawResponse = Some (BytesPtr a) \<longrightarrow>
        bytes_at (snd (Do createHTTPRequest client_Do c ctx req s)) a = body)"
proof -
  have ex: "Do createHTTPRequest client_Do c ctx req s =
     (case classify resp body (lookup_rawResponse ctx)
             (store_rawResponse (lookup_rawResponse ctx) body s) of
        (Inl err, s') \<Rightarrow> (Inl err, s')
      | (Inr httpResp, s') \<Rightarrow> (Inr httpResp, capture_response ctx httpResp s'))"
    using assms(1-4) by (rule Do_executed)
  let ?s1 = "store_rawResponse (lookup_rawResponse ctx) body s"
  let ?e = "if StatusCode resp = 401 then WithStack (ArangoError True 401 0 body)
            else WithStack (Errorf
               (''Unsupported content type '' @ apostrophe @ ct @ apostrophe @
                '' with status '' @ fmt_d (StatusCode resp) @
                '' and content '' @ apostrophe @ body @ apostrophe))"
  have cls: "classify resp body (lookup_rawResponse ctx) ?s1 = (Inl ?e, ?s1)"
    unfolding classify_takeWhile Let_def using assms(5-10) by auto
  have res: "Do createHTTPRequest client_Do c ctx req s = (Inl ?e, ?s1)"
    unfolding ex cls by simp
  have raw: "bytes_at ?s1 a = body" if "ctx = Some cx" "cx keyRawResponse = Some (BytesPtr a)" for cx a
    using that by (simp add: lookup_rawResponse_attached store_rawResponse_def)
  show ?thesis
    unfolding res using raw by (simp add: response_at_store_rawResponse)
qed

theorem C9_failed_classification_witness:
  "fst (Do sample_render (sample_server (sample_response 401 ''text/plain'' ''not authorized''))
          (sample_connection ContentTypeVelocypack) (Some sample_context)
          (httpVPackRequest ''GET'' ''/_api/version'') sample_store)
     = Inl (WithStack (ArangoError True 401 0 ''not authorized'')) \<and>
   response_at (snd (Do sample_render (sample_server (sample_response 401 ''text/plain'' ''not authorized''))
          (sample_connection ContentTypeVelocypack) (Some sample_context)
          (httpVPackRequest ''GET'' ''/_api/version'') sample_store)) = response_at sample_store \<and>
   bytes_at (snd (Do sample_render (sample_server (sample_response 401 ''text/plain'' ''not authorized''))
          (sample_connection ContentTypeVelocypack) (Some sample_context)
          (httpVPackRequest ''GET'' ''/_api/version'') sample_store)) 1 = ''not authorized'' \<and>
   response_at (snd (Do sample_render (sample_server (sample_response 500 ''text/plain'' ''failure''))
          (sample_connection ContentTypeVelocypack) (Some sample_context)
          (httpVPackRequest ''GET'' ''/_api/version'') sample_store)) = response_at sample_store \<and>
   bytes_at (snd (Do sample_render (sample_server (sample_response 500 ''text/plain'' ''failure''))
          (sample_connection ContentTypeVelocypack) (Some sample_context)
          (httpVPackRequest ''GET'' ''/_api/version'') sample_store)) 1 = ''failure''"
proof -
  let ?req = "httpVPackRequest ''GET'' ''/_api/version''"
  let ?c = "sample_connection ContentTypeVelocypack"
  note ex = sample_exchange [of ContentTypeVelocypack]
  have a: "fst (Do sample_render (sample_server (sample_response 401 ''text/plain'' ''not authorized''))
          ?c (Some sample_context) ?req sample_store)
     = Inl (WithStack (ArangoError True 401 0 ''not authorized'')) \<and>
   response_at (snd (Do sample_render (sample_server (sample_response 401 ''text/plain'' ''not authorized''))
          ?c (Some sample_context) ?req sample_store)) = response_at sample_store \<and>
   bytes_at (snd (Do sample_render (sample_server (sample_response 401 ''text/plain'' ''not authorized''))
          ?c (Some sample_context) ?req sample_store)) 1 = ''not authorized''"
    using C9_failed_classification [of ?req sample_render ?c "''http://localhost:8529''"
        "sample_server (sample_response 401 ''text/plain'' ''not authorized'')"
        "sample_response 401 ''text/plain'' ''not authorized''" "''not authorized''"
        "''text/plain''" "''text/plain''" "Some sample_context" sample_store sample_context 1]
    by (simp add: ex sample_context_raw)
  have b: "response_at (snd (Do sample_render (sample_server (sample_response 500 ''text/plain'' ''failure''))
          ?c (Some sample_context) ?req sample_store)) = response_at sample_store \<and>
   bytes_at (snd (Do sample_render (sample_server (sample_response 500 ''text/plain'' ''failure''))
          ?c (Some sample_context) ?req sample_store)) 1 = ''failure''"
    using C9_failed_classification [of ?req sample_render ?c "''http://localhost:8529''"
        "sample_server (sample_response 500 ''text/plain'' ''failure'')"
        "sample_response 500 ''text/plain'' ''failure''" "''failure''"
        "''text/plain''" "''text/plain''" "Some sample_context" sample_store sample_context 1]
    by (simp add: ex sample_context_raw)
  from a b show ?thesis by blast
qed

subsection \<open>Decoding\<close>

lemma first_last_nth:
  "2 \<le> length data \<Longrightarrow> data ! 0 = hd data \<and> data ! (length data - 1) = last data"
  by (cases data) (auto simp: last_conv_nth)

text \<open>
  C2. On a connection configured with velocypack, bytes of length at least 2 that begin
  with \<^verbatim>\<open>{\<close> and end with \<^verbatim>\<open>}\<close>, or begin with \<^verbatim>\<open>[\<close> and end with \<^verbatim>\<open>]\<close>, are decoded by the
  JSON codec, and all other bytes by the velocypack codec; on a connection configured with
  JSON every input is decoded by the JSON codec; with any other configured content type
  the unsupported-content-type error is returned and the target is untouched. An error
  of the codec is returned wrapped, and the target is as the codec leaves it.
\<close>

theorem C2_Unmarshal_codec:
  "(contentType c = ContentTypeVelocypack \<and> 2 \<le> length data \<and>
      (hd data = CHR ''{'' \<and> last data = CHR ''}'' \<or> hd data = CHR ''['' \<and> last data = CHR '']'') \<longrightarrow>
      Unmarshal json_Unmarshal velocypack_Unmarshal c data result
        = (map_option WithStack (fst (json_Unmarshal data result)), snd (json_Unmarshal data result))) \<and>
   (contentType c = ContentTypeVelocypack \<and>
      \<not> (2 \<le> length data \<and>
         (hd data = CHR ''{'' \<and> last data = CHR ''}'' \<or> hd data = CHR ''['' \<and> last data = CHR '']'')) \<longrightarrow>
      Unmarshal json_Unmarshal velocypack_Unmarshal c data result
        = (map_option WithStack (fst (velocypack_Unmarshal data result)),
           snd (velocypack_Unmarshal data result))) \<and>
   (contentType c = ContentTypeJSON \<longrightarrow>
      Unmarshal json_Unmarshal velocypack_Unmarshal c data result
        = (map_option WithStack (fst (json_Unmarshal data result)), snd (json_Unmarshal data result))) \<and>
   (contentType c \<noteq> ContentTypeJSON \<and> contentType c \<noteq> ContentTypeVelocypack \<longrightarrow>
      Unmarshal json_Unmarshal velocypack_Unmarshal c data result
        = (Some (WithStack (Errorf (''Unsupported content type '' @ fmt_d (contentType c)))), result))"
proof -
  have wrap: "(case f data result of
                 (Some err, result') \<Rightarrow> (Some (WithStack err), result')
               | (None, result') \<Rightarrow> (None, result'))
              = (map_option WithStack (fst (f data result)), snd (f data result))"
    for f :: "bytes \<Rightarrow> 'a \<Rightarrow> error option \<times> 'a"
    by (cases "f data result") (auto split: option.splits)
  have sniffed: "Unmarshal json_Unmarshal velocypack_Unmarshal c data result
        = (map_option WithStack (fst (json_Unmarshal data result)), snd (json_Unmarshal data result))"
    if "contentType c = ContentTypeVelocypack" "2 \<le> length data"
      "hd data = CHR ''{'' \<and> last data = CHR ''}'' \<or> hd data = CHR ''['' \<and> last data = CHR '']''"
    using that first_last_nth [of data]
    by (auto simp: Unmarshal_def Let_def wrap)
  have binary: "Unmarshal json_Unmarshal velocypack_Unmarshal c data result
        = (map_option WithStack (fst (velocypack_Unmarshal data result)),
           snd (velocypack_Unmarshal data result))"
    if "contentType c = ContentTypeVelocypack"
      "\<not> (2 \<le> length data \<and>
         (hd data = CHR ''{'' \<and> last data = CHR ''}'' \<or> hd data = CHR ''['' \<and> last data = CHR '']''))"
    using that first_last_nth [of data] content_types_distinct
    by (auto simp: Unmarshal_def Let_def wrap)
  have json: "Unmarshal json_Unmarshal velocypack_Unmarshal c data result
        = (map_option WithStack (fst (json_Unmarshal data result)), snd (json_Unmarshal data result))"
    if "contentType c = ContentTypeJSON"
    using that content_types_distinct by (simp add: Unmarshal_def Let_def wrap)
  have other: "Unmarshal json_Unmarshal velocypack_Unmarshal c data result
        = (Some (WithStack (Errorf (''Unsupported content type '' @ fmt_d (contentType c)))), result)"
    if "contentType c \<noteq> ContentTypeJSON" "contentType c \<noteq> ContentTypeVelocypack"
    using that by (simp add: Unmarshal_def Let_def)
  from sniffed binary json other show ?thesis by blast
qed

theorem C2_Unmarshal_codec_witness:
  "Unmarshal sample_json_Unmarshal sample_velocypack_Unmarshal
      (sample_connection ContentTypeVelocypack) ''[1,2]'' ''target'' = (None, ''json [1,2]'') \<and>
   Unmarshal sample_json_Unmarshal sample_velocypack_Unmarshal
      (sample_connection ContentTypeVelocypack) ''[1,2'' ''target''
     = (Some (WithStack (ExternalError ''velocypack: invalid slice'')), ''target'') \<and>
   Unmarshal sample_json_Unmarshal sample_velocypack_Unmarshal
      (sample_connection ContentTypeJSON) ''[1,2'' ''target'' = (None, ''json [1,2'') \<and>
   Unmarshal sample_json_Unmarshal sample_velocypack_Unmarshal
      (sample_connection 2) ''[1,2]'' ''target''
     = (Some (WithStack (Errorf ''Unsupported content type 2'')), ''target'')"
proof -
  have ct: "contentType (sample_connection t) = t" for t
    by (simp add: sample_connection_def)
  have a: "Unmarshal sample_json_Unmarshal sample_velocypack_Unmarshal
      (sample_connection ContentTypeVelocypack) ''[1,2]'' ''target'' = (None, ''json [1,2]'')"
    using C2_Unmarshal_codec [where c = "sample_connection ContentTypeVelocypack" and data = "''[1,2]''" and
        json_Unmarshal = sample_json_Unmarshal and result = "''target''" and
        velocypack_Unmarshal = sample_velocypack_Unmarshal]
    by (simp add: ct sample_json_Unmarshal_def)
  have b: "Unmarshal sample_json_Unmarshal sample_velocypack_Unmarshal
      (sample_connection ContentTypeVelocypack) ''[1,2'' ''target''
     = (Some (WithStack (ExternalError ''velocypack: invalid slice'')), ''target'')"
    using C2_Unmarshal_codec [where c = "sample_connection ContentTypeVelocypack" and data = "''[1,2''" and
        json_Unmarshal = sample_json_Unmarshal and result = "''target''" and
        velocypack_Unmarshal = sample_velocypack_Unmarshal]
    by (simp add: ct sample_velocypack_Unmarshal_def)
  have c: "Unmarshal sample_json_Unmarshal sample_velocypack_Unmarshal
      (sample_connection ContentTypeJSON) ''[1,2'' ''target'' = (None, ''json [1,2'')"
    using C2_Unmarshal_codec [where c = "sample_connection ContentTypeJSON" and data = "''[1,2''" and
        json_Unmarshal = sample_json_Unmarshal and result = "''target''" and
        velocypack_Unmarshal = sample_velocypack_Unmarshal]
    by (simp add: ct sample_json_Unmarshal_def)
  have d: "Unmarshal sample_json_Unmarshal sample_velocypack_Unmarshal
      (sample_connection 2) ''[1,2]'' ''target''
     = (Some (WithStack (Errorf ''Unsupported content type 2'')), ''target'')"
    using C2_Unmarshal_codec [where c = "sample_connection 2" and data = "''[1,2]''" and
        json_Unmarshal = sample_json_Unmarshal and result = "''target''" and
        velocypack_Unmarshal = sample_velocypack_Unmarshal]
    by (simp add: ct ContentTypeJSON_def ContentTypeVelocypack_def fmt_d_2)
  from a b c d show ?thesis by blast
qed

subsection \<open>Construction\<close>

lemma adjust_Transport_limits:
  "MaxIdleConnsPerHost (adjust_Transport tlsConfig t)
     = (if MaxIdleConnsPerHost t = 0 then 64 else MaxIdleConnsPerHost t) \<and>
   MaxIdleConns (adjust_Transport tlsConfig t)
     = (if 0 < MaxIdleConns t \<and> MaxIdleConns t < 192 then 192 else MaxIdleConns t)"
  by (simp add: adjust_Transport_def Let_def DefaultMaxIdleConnsPerHost_def split: option.splits)

text \<open>
  C7, as the code has it. A connection built over an adjustable transport (the caller's
  \<^verbatim>\<open>*http.Transport\<close>, or the default one when the configuration has none) has a per-host
  idle limit of 64 where the caller's was zero, and a total idle limit of 192 where the
  caller's was positive and below 192; every other value of either limit, the total limit
  zero included, is kept. The default transport ends with 64 and 192.
\<close>

theorem C7_idle_connection_limits:
  "(newHTTPConnection FixupEndpointURLScheme url_Parse ep config = Inr c \<and>
    Transport config = Some (HttpTransport t) \<longrightarrow>
      client_Transport (client c) = Some (HttpTransport (adjust_Transport (TLSConfig config) t)) \<and>
      MaxIdleConnsPerHost (adjust_Transport (TLSConfig config) t)
        = (if MaxIdleConnsPerHost t = 0 then 64 else MaxIdleConnsPerHost t) \<and>
      MaxIdleConns (adjust_Transport (TLSConfig config) t)
        = (if 0 < MaxIdleConns t \<and> MaxIdleConns t < 192 then 192 else MaxIdleConns t)) \<and>
   (newHTTPConnection FixupEndpointURLScheme url_Parse ep config = Inr c \<and>
    Transport config = None \<longrightarrow>
      client_Transport (client c)
        = Some (HttpTransport (adjust_Transport (TLSConfig config) default_Transport)) \<and>
      MaxIdleConnsPerHost (adjust_Transport (TLSConfig config) default_Transport) = 64 \<and>
      MaxIdleConns (adjust_Transport (TLSConfig config) default_Transport) = 192)"
proof -
  have given: "client_Transport (client c) = Some (HttpTransport (adjust_Transport (TLSConfig config) t))"
    if "newHTTPConnection FixupEndpointURLScheme url_Parse ep config = Inr c"
      "Transport config = Some (HttpTransport t)"
    using that by (auto simp: newHTTPConnection_def Let_def split: sum.splits)
  have built: "client_Transport (client c)
        = Some (HttpTransport (adjust_Transport (TLSConfig config) default_Transport))"
    if "newHTTPConnection FixupEndpointURLScheme url_Parse ep config = Inr c"
      "Transport config = None"
    using that by (auto simp: newHTTPConnection_def Let_def split: sum.splits)
  have dflt: "MaxIdleConnsPerHost default_Transport = 0 \<and> MaxIdleConns default_Transport = 100"
    by (simp add: default_Transport_def)
  show ?thesis
    using given built by (simp add: adjust_Transport_limits dflt)
qed

theorem C7_idle_connection_limits_witness:
  "newHTTPConnection (\<lambda>e. e) Inr ''http://localhost:8529''
      \<lparr>Endpoints = [''http://localhost:8529''], TLSConfig = None,
       Transport = Some (HttpTransport (default_Transport\<lparr>MaxIdleConns := 10\<rparr>)),
       FailOnRedirect = False, ContentType = ContentTypeJSON\<rparr>
     = Inr (sample_connection ContentTypeJSON
             \<lparr>client := \<lparr>client_Transport = Some (HttpTransport
                   (default_Transport\<lparr>MaxIdleConns := 192, MaxIdleConnsPerHost := 64\<rparr>)),
                 CheckRedirect = None\<rparr>\<rparr>) \<and>
   MaxIdleConnsPerHost (adjust_Transport None (default_Transport\<lparr>MaxIdleConns := 10\<rparr>)) = 64 \<and>
   MaxIdleConns (adjust_Transport None (default_Transport\<lparr>MaxIdleConns := 10\<rparr>)) = 192 \<and>
   MaxIdleConns (adjust_Transport None (default_Transport\<lparr>MaxIdleConns := 500, MaxIdleConnsPerHost := 7\<rparr>)) = 500 \<and>
   MaxIdleConnsPerHost (adjust_Transport None (default_Transport\<lparr>MaxIdleConns := 500, MaxIdleConnsPerHost := 7\<rparr>)) = 7"
proof -
  let ?cfg = "\<lambda>t. \<lparr>Endpoints = [''http://localhost:8529''], TLSConfig = None,
       Transport = Some (HttpTransport t), FailOnRedirect = False, ContentType = ContentTypeJSON\<rparr>"
  let ?t = "default_Transport\<lparr>MaxIdleConns := 10\<rparr>"
  let ?u = "default_Transport\<lparr>MaxIdleConns := 500, MaxIdleConnsPerHost := 7\<rparr>"
  let ?c = "sample_connection ContentTypeJSON
             \<lparr>client := \<lparr>client_Transport = Some (HttpTransport
                   (default_Transport\<lparr>MaxIdleConns := 192, MaxIdleConnsPerHost := 64\<rparr>)),
                 CheckRedirect = None\<rparr>\<rparr>"
  let ?d = "sample_connection ContentTypeJSON
             \<lparr>client := \<lparr>client_Transport = Some (HttpTransport ?u), CheckRedirect = None\<rparr>\<rparr>"
  have run: "newHTTPConnection (\<lambda>e. e) Inr ''http://localhost:8529'' (?cfg ?t) = Inr ?c"
    by (simp add: newHTTPConnection_def Let_def adjust_Transport_def default_Transport_def
        DefaultMaxIdleConnsPerHost_def sample_connection_def)
  have run': "newHTTPConnection (\<lambda>e. e) Inr ''http://localhost:8529'' (?cfg ?u) = Inr ?d"
    by (simp add: newHTTPConnection_def Let_def adjust_Transport_def default_Transport_def
        DefaultMaxIdleConnsPerHost_def sample_connection_def)
  have a: "MaxIdleConnsPerHost (adjust_Transport None ?t) = 64 \<and> MaxIdleConns (adjust_Transport None ?t) = 192"
    using run C7_idle_connection_limits [where FixupEndpointURLScheme = "\<lambda>e. e" and url_Parse = Inr and
        ep = "''http://localhost:8529''" and config = "?cfg ?t" and c = ?c and t = ?t]
    by (simp add: default_Transport_def)
  have b: "MaxIdleConns (adjust_Transport None ?u) = 500 \<and> MaxIdleConnsPerHost (adjust_Transport None ?u) = 7"
    using run' C7_idle_connection_limits [where FixupEndpointURLScheme = "\<lambda>e. e" and url_Parse = Inr and
        ep = "''http://localhost:8529''" and config = "?cfg ?u" and c = ?d and t = ?u]
    by (simp add: default_Transport_def)
  from run a b show ?thesis by blast
qed

text \<open>
  C7 as stated fails: a total idle limit of zero is lower than 192, yet the guard
  \<^verbatim>\<open>MaxIdleConns > 0\<close> keeps it at zero.
\<close>

theorem C7_counterexample:
  "MaxIdleConns (default_Transport\<lparr>MaxIdleConns := 0\<rparr>) < 192 \<and>
   newHTTPConnection (\<lambda>e. e) Inr ''http://localhost:8529''
      \<lparr>Endpoints = [''http://localhost:8529''], TLSConfig = None,
       Transport = Some (HttpTransport (default_Transport\<lparr>MaxIdleConns := 0\<rparr>)),
       FailOnRedirect = False, ContentType = ContentTypeJSON\<rparr>
     = Inr (sample_connection ContentTypeJSON
             \<lparr>client := \<lparr>client_Transport = Some (HttpTransport
                   (default_Transport\<lparr>MaxIdleConns := 0, MaxIdleConnsPerHost := 64\<rparr>)),
                 CheckRedirect = None\<rparr>\<rparr>) \<and>
   MaxIdleConns (default_Transport\<lparr>MaxIdleConns := 0, MaxIdleConnsPerHost := 64\<rparr>) \<noteq> 192"
  by (simp add: newHTTPConnection_def Let_def adjust_Transport_def default_Transport_def
      DefaultMaxIdleConnsPerHost_def sample_connection_def)

subsection \<open>Authentication\<close>

lemma fmt_d_7: "fmt_d 7 = ''7''"
  by code_simp

lemma authentication_types_distinct:
  "AuthenticationTypeBasic \<noteq> AuthenticationTypeJWT \<and> AuthenticationTypeBasic \<noteq> AuthenticationTypeRaw \<and>
   AuthenticationTypeJWT \<noteq> AuthenticationTypeRaw"
  by (simp add: AuthenticationTypeBasic_def AuthenticationTypeJWT_def AuthenticationTypeRaw_def)

text \<open>
  C6. \<^verbatim>\<open>SetAuthentication\<close> dispatches on the type of the authentication. Basic and JWT
  give a decorated connection over the given connection when \<^verbatim>\<open>username\<close> and
  \<^verbatim>\<open>password\<close> are both present and a configuration error when one is absent; Raw does
  the same with \<^verbatim>\<open>value\<close>; any other type gives the unsupported-authentication error from
  \<^verbatim>\<open>SetAuthentication\<close> itself, where no decorated connection exists that could issue a
  request. The connection is after the call as it was before, in every error case too.
\<close>

theorem C6_SetAuthentication_dispatch:
  "(auth_Type a = AuthenticationTypeBasic \<longrightarrow>
      (auth_Get a ''username'' = None \<or> auth_Get a ''password'' = None \<longrightarrow>
         fst (SetAuthentication c a)
           = Inl (WithStack (ConfigurationError ''missing authentication field''))) \<and>
      (auth_Get a ''username'' = Some u \<and> auth_Get a ''password'' = Some p \<longrightarrow>
         fst (SetAuthentication c a) = Inr \<lparr>conn = c, auth = basicAuthentication u p\<rparr>)) \<and>
   (auth_Type a = AuthenticationTypeJWT \<longrightarrow>
      (auth_Get a ''username'' = None \<or> auth_Get a ''password'' = None \<longrightarrow>
         fst (SetAuthentication c a)
           = Inl (WithStack (ConfigurationError ''missing authentication field''))) \<and>
      (auth_Get a ''username'' = Some u \<and> auth_Get a ''password'' = Some p \<longrightarrow>
         fst (SetAuthentication c a) = Inr \<lparr>conn = c, auth = jwtAuthentication u p\<rparr>)) \<and>
   (auth_Type a = AuthenticationTypeRaw \<longrightarrow>
      (auth_Get a ''value'' = None \<longrightarrow>
         fst (SetAuthentication c a)
           = Inl (WithStack (ConfigurationError ''missing authentication field''))) \<and>
      (auth_Get a ''value'' = Some v \<longrightarrow>
         fst (SetAuthentication c a) = Inr \<lparr>conn = c, auth = rawAuthentication v\<rparr>)) \<and>
   (auth_Type a \<noteq> AuthenticationTypeBasic \<and> auth_Type a \<noteq> AuthenticationTypeJWT \<and>
    auth_Type a \<noteq> AuthenticationTypeRaw \<longrightarrow>
      fst (SetAuthentication c a)
        = Inl (WithStack (Errorf (''Unsupported authentication type '' @ fmt_d (auth_Type a))))) \<and>
   snd (SetAuthentication c a) = c"
proof -
  note distinct = authentication_types_distinct
  have basic_absent: "fst (SetAuthentication c a)
      = Inl (WithStack (ConfigurationError ''missing authentication field''))"
    if "auth_Type a = AuthenticationTypeBasic"
      "auth_Get a ''username'' = None \<or> auth_Get a ''password'' = None"
    using that
    by (auto simp: SetAuthentication_def Let_def newBasicAuthentication_def
        newAuthenticatedConnection_def split: option.splits)
  have basic_present: "fst (SetAuthentication c a) = Inr \<lparr>conn = c, auth = basicAuthentication u p\<rparr>"
    if "auth_Type a = AuthenticationTypeBasic"
      "auth_Get a ''username'' = Some u" "auth_Get a ''password'' = Some p"
    using that
    by (simp add: SetAuthentication_def Let_def newBasicAuthentication_def
        newAuthenticatedConnection_def)
  have jwt_absent: "fst (SetAuthentication c a)
      = Inl (WithStack (ConfigurationError ''missing authentication field''))"
    if "auth_Type a = AuthenticationTypeJWT"
      "auth_Get a ''username'' = None \<or> auth_Get a ''password'' = None"
    using that distinct
    by (auto simp: SetAuthentication_def Let_def newJWTAuthentication_def
        newAuthenticatedConnection_def split: option.splits)
  have jwt_present: "fst (SetAuthentication c a) = Inr \<lparr>conn = c, auth = jwtAuthentication u p\<rparr>"
    if "auth_Type a = AuthenticationTypeJWT"
      "auth_Get a ''username'' = Some u" "auth_Get a ''password'' = Some p"
    using that distinct
    by (simp add: SetAuthentication_def Let_def newJWTAuthentication_def
        newAuthenticatedConnection_def)
  have raw_absent: "fst (SetAuthentication c a)
      = Inl (WithStack (ConfigurationError ''missing authentication field''))"
    if "auth_Type a = AuthenticationTypeRaw" "auth_Get a ''value'' = None"
    using that distinct
    by (simp add: SetAuthentication_def Let_def newRawAuthentication_def
        newAuthenticatedConnection_def)
  have raw_present: "fst (SetAuthentication c a) = Inr \<lparr>conn = c, auth = rawAuthentication v\<rparr>"
    if "auth_Type a = AuthenticationTypeRaw" "auth_Get a ''value'' = Some v"
    using that distinct
    by (simp add: SetAuthentication_def Let_def newRawAuthentication_def
        newAuthenticatedConnection_def)
  have other: "fst (SetAuthentication c a)
      = Inl (WithStack (Errorf (''Unsupported authentication type '' @ fmt_d (auth_Type a))))"
    if "auth_Type a \<noteq> AuthenticationTypeBasic" "auth_Type a \<noteq> AuthenticationTypeJWT"
      "auth_Type a \<noteq> AuthenticationTypeRaw"
    using that by (simp add: SetAuthentication_def Let_def)
  have keep: "snd (SetAuthentication c a) = c"
    by (simp add: SetAuthentication_def Let_def split: sum.splits)
  from basic_absent basic_present jwt_absent jwt_present raw_absent raw_present other keep
  show ?thesis by blast
qed

theorem C6_SetAuthentication_dispatch_witness:
  "SetAuthentication (sample_connection ContentTypeJSON)
      \<lparr>auth_Type = AuthenticationTypeBasic, auth_Get = [''username'' \<mapsto> ''root'']\<rparr>
     = (Inl (WithStack (ConfigurationError ''missing authentication field'')),
        sample_connection ContentTypeJSON) \<and>
   SetAuthentication (sample_connection ContentTypeJSON)
      \<lparr>auth_Type = AuthenticationTypeJWT,
       auth_Get = [''username'' \<mapsto> ''root'', ''password'' \<mapsto> ''secret'']\<rparr>
     = (Inr \<lparr>conn = sample_connection ContentTypeJSON, auth = jwtAuthentication ''root'' ''secret''\<rparr>,
        sample_connection ContentTypeJSON) \<and>
   SetAuthentication (sample_connection ContentTypeJSON)
      \<lparr>auth_Type = AuthenticationTypeRaw, auth_Get = [''value'' \<mapsto> ''bearer token'']\<rparr>
     = (Inr \<lparr>conn = sample_connection ContentTypeJSON, auth = rawAuthentication ''bearer token''\<rparr>,
        sample_connection ContentTypeJSON) \<and>
   SetAuthentication (sample_connection ContentTypeJSON)
      \<lparr>auth_Type = 7, auth_Get = [''username'' \<mapsto> ''root'', ''password'' \<mapsto> ''secret'']\<rparr>
     = (Inl (WithStack (Errorf ''Unsupported authentication type 7'')),
        sample_connection ContentTypeJSON)"
proof -
  let ?c = "sample_connection ContentTypeJSON"
  let ?basic = "\<lparr>auth_Type = AuthenticationTypeBasic, auth_Get = [''username'' \<mapsto> ''root'']\<rparr>"
  let ?jwt = "\<lparr>auth_Type = AuthenticationTypeJWT,
               auth_Get = [''username'' \<mapsto> ''root'', ''password'' \<mapsto> ''secret'']\<rparr>"
  let ?raw = "\<lparr>auth_Type = AuthenticationTypeRaw, auth_Get = [''value'' \<mapsto> ''bearer token'']\<rparr>"
  let ?other = "\<lparr>auth_Type = 7, auth_Get = [''username'' \<mapsto> ''root'', ''password'' \<mapsto> ''secret'']\<rparr>"
  note distinct = authentication_types_distinct
  have a: "fst (SetAuthentication ?c ?basic)
             = Inl (WithStack (ConfigurationError ''missing authentication field'')) \<and>
           snd (SetAuthentication ?c ?basic) = ?c"
    using C6_SetAuthentication_dispatch [where c = ?c and a = ?basic] by simp
  have b: "fst (SetAuthentication ?c ?jwt) = Inr \<lparr>conn = ?c, auth = jwtAuthentication ''root'' ''secret''\<rparr> \<and>
           snd (SetAuthentication ?c ?jwt) = ?c"
    using C6_SetAuthentication_dispatch [where c = ?c and a = ?jwt and u = "''root''" and p = "''secret''"]
    by simp
  have c: "fst (SetAuthentication ?c ?raw) = Inr \<lparr>conn = ?c, auth = rawAuthentication ''bearer token''\<rparr> \<and>
           snd (SetAuthentication ?c ?raw) = ?c"
    using C6_SetAuthentication_dispatch [where c = ?c and a = ?raw and v = "''bearer token''"]
    by simp
  have d: "fst (SetAuthentication ?c ?other) = Inl (WithStack (Errorf ''Unsupported authentication type 7'')) \<and>
           snd (SetAuthentication ?c ?other) = ?c"
    using C6_SetAuthentication_dispatch [where c = ?c and a = ?other]
    by (simp add: AuthenticationTypeBasic_def AuthenticationTypeJWT_def AuthenticationTypeRaw_def fmt_d_7)
  from a b c d show ?thesis by (simp add: prod_eq_iff)
qed

end
